theory Spec2Isabelle
  imports Complex_Main
begin

section \<open>The matrix-free Neo-Hooke tangent operator (include/mf_nh_operator.h)\<close>

text \<open>
  The class \<open>NeoHookOperator<dim,fe_degree,n_q_points_1d,number>\<close> is embedded
  shallowly. The working type \<open>number\<close> (a binary floating-point type in the C++) is
  idealised as \<open>real\<close>: comparisons, \<open>std::abs\<close> and the branch structure are
  those of the source, rounding is not modelled. \<open>Assert\<close> is modelled as deal.II
  evaluates it in debug mode: a failed assertion ends the call with the exception
  named in the macro. Dereferencing an empty \<open>std::shared_ptr\<close> or an unbound raw
  pointer ends the call with \<open>NullPointer\<close>.
\<close>

subsection \<open>Data\<close>

type_synonym number = real

text \<open>\<open>Vector<number>\<close>: one scalar per global degree of freedom.\<close>
type_synonym Vector = "number list"

text \<open>\<open>VectorizedArray<number>\<close>: one scalar per SIMD lane.\<close>
type_synonym VectorizedArray = "number list"

text \<open>\<open>Tensor<2,dim,VectorizedArray<number>>\<close> and its symmetric variant, as the list
  of their (lane-batched) components.\<close>
type_synonym Tensor = "VectorizedArray list"

text \<open>The address held by the raw pointer \<open>Vector<number> *displacement\<close>.\<close>
type_synonym addr = nat

datatype error =
    ExcNotInitialized
  | ExcNotImplemented
  | ExcInternalError
  | ExcIndexRange
  | ExcDimensionMismatch
  | NullPointer

text \<open>The material model of \<open>material.h\<close>, of which the operator calls two members.\<close>
record Material =
  get_tau :: "VectorizedArray \<Rightarrow> Tensor \<Rightarrow> Tensor"
  act_Jc :: "VectorizedArray \<Rightarrow> Tensor \<Rightarrow> Tensor \<Rightarrow> Tensor"

text \<open>
  Everything the operator calls but does not define: the members of deal.II's
  \<open>MatrixFree\<close> (type \<open>'mf\<close>) and \<open>FEEvaluation\<close> (type \<open>'fe\<close>) it uses, the
  kinematics functions, \<open>egeo_grad\<close>, the two compile-time constants
  \<open>VectorizedArray<number>::n_array_elements\<close> and
  \<open>std::numeric_limits<number>::epsilon()\<close>, and the memory its raw pointer points
  into. They are parameters of the model.
\<close>
record ('mf, 'fe) environment =
  n_array_elements :: nat
  epsilon :: number
  heap :: "addr \<Rightarrow> Vector option"
  n_macro_cells :: "'mf \<Rightarrow> nat"
  get_constrained_dofs :: "'mf \<Rightarrow> nat list"
  n_dofs :: "'mf \<Rightarrow> nat"
  FEEvaluation :: "'mf \<Rightarrow> 'fe"
  n_q_points :: "'fe \<Rightarrow> nat"
  dofs_per_component :: "'fe \<Rightarrow> nat"
  n_components :: "'fe \<Rightarrow> nat"
  reinit :: "nat \<Rightarrow> 'fe \<Rightarrow> 'fe"
  read_dof_values :: "Vector \<Rightarrow> 'fe \<Rightarrow> 'fe"
  read_dof_values_plain :: "Vector \<Rightarrow> 'fe \<Rightarrow> 'fe"
  begin_dof_values :: "'fe \<Rightarrow> VectorizedArray list"
  set_dof_value :: "nat \<Rightarrow> VectorizedArray \<Rightarrow> 'fe \<Rightarrow> 'fe"
  evaluate :: "'fe \<Rightarrow> 'fe"
  get_gradient :: "'fe \<Rightarrow> nat \<Rightarrow> Tensor"
  get_symmetric_gradient :: "'fe \<Rightarrow> nat \<Rightarrow> Tensor"
  JxW :: "'fe \<Rightarrow> nat \<Rightarrow> VectorizedArray"
  submit_gradient :: "Tensor \<Rightarrow> nat \<Rightarrow> 'fe \<Rightarrow> 'fe"
  submit_symmetric_gradient :: "Tensor \<Rightarrow> nat \<Rightarrow> 'fe \<Rightarrow> 'fe"
  integrate :: "'fe \<Rightarrow> 'fe"
  distribute_local_to_global :: "'fe \<Rightarrow> Vector \<Rightarrow> Vector"
  Kinematics_F :: "Tensor \<Rightarrow> Tensor"
  determinant :: "Tensor \<Rightarrow> VectorizedArray"
  Kinematics_F_iso :: "Tensor \<Rightarrow> Tensor"
  Kinematics_b :: "Tensor \<Rightarrow> Tensor"
  symmetric_to_tensor :: "Tensor \<Rightarrow> Tensor"
  egeo_grad :: "Tensor \<Rightarrow> Tensor \<Rightarrow> Tensor"

text \<open>
  The data members of the class. A \<open>std::shared_ptr\<close> is \<open>None\<close> when empty; the two
  \<open>DiagonalMatrix<Vector<number>>\<close> objects are the vectors they wrap.
\<close>
record 'mf NeoHookOperator =
  data_current :: "'mf option"
  data_reference :: "'mf option"
  displacement :: "addr option"
  material :: "Material option"
  inverse_diagonal_entries :: "Vector option"
  diagonal_entries :: "Vector option"
  diagonal_is_available :: bool

subsection \<open>Construction, binding and release\<close>

text \<open>The constructor initialises the flag only; the smart pointers start empty and
  the raw pointer is unbound.\<close>
definition NeoHookOperator_ctor :: "'mf NeoHookOperator" where
  "NeoHookOperator_ctor =
     \<lparr> data_current = None, data_reference = None, displacement = None,
       material = None, inverse_diagonal_entries = None, diagonal_entries = None,
       diagonal_is_available = False \<rparr>"

definition clear :: "'mf NeoHookOperator \<Rightarrow> 'mf NeoHookOperator" where
  "clear op =
     op \<lparr> data_current := None,
          data_reference := None,
          diagonal_is_available := False,
          diagonal_entries := None,
          inverse_diagonal_entries := None \<rparr>"

definition initialize ::
  "'mf \<Rightarrow> 'mf \<Rightarrow> addr \<Rightarrow> 'mf NeoHookOperator \<Rightarrow> 'mf NeoHookOperator" where
  "initialize data_current' data_reference' displacement' op =
     op \<lparr> data_current := Some data_current',
          data_reference := Some data_reference',
          displacement := Some displacement' \<rparr>"

definition set_material :: "Material \<Rightarrow> 'mf NeoHookOperator \<Rightarrow> 'mf NeoHookOperator" where
  "set_material material' op = op \<lparr> material := Some material' \<rparr>"

subsection \<open>Jacobi preconditioner and diagonal access\<close>

text \<open>
  Modelled from the spec: \<open>DiagonalMatrix::vmult\<close> is a member of the deal.II library
  and not part of the repository; the specification gives its effect as the
  element-wise product of the stored diagonal with \<open>src\<close>. The library asserts that
  the two sizes agree.
\<close>
definition DiagonalMatrix_vmult :: "Vector \<Rightarrow> Vector \<Rightarrow> error + Vector" where
  "DiagonalMatrix_vmult diagonal src =
     (if length src \<noteq> length diagonal then Inl ExcDimensionMismatch
      else Inr (map2 (\<lambda>s d. s * d) src diagonal))"

text \<open>\<open>dst\<close> is an output parameter: its value on entry is never read.
  \<open>dst *= omega\<close> scales every entry.\<close>
definition precondition_Jacobi ::
  "'mf NeoHookOperator \<Rightarrow> Vector \<Rightarrow> Vector \<Rightarrow> number \<Rightarrow> error + Vector" where
  "precondition_Jacobi op dst src omega =
     (case inverse_diagonal_entries op of
        None \<Rightarrow> Inl ExcNotInitialized
      | Some inverse_diagonal \<Rightarrow>
          if \<not> 0 < length inverse_diagonal then Inl ExcNotInitialized
          else (case DiagonalMatrix_vmult inverse_diagonal src of
                  Inl e \<Rightarrow> Inl e
                | Inr dst1 \<Rightarrow> Inr (map (\<lambda>x. x * omega) dst1)))"

text \<open>Element access of a \<open>Vector\<close>, which asserts the index range.\<close>
definition vector_at :: "Vector \<Rightarrow> nat \<Rightarrow> error + number" where
  "vector_at v i = (if i < length v then Inr (v ! i) else Inl ExcIndexRange)"

definition el :: "'mf NeoHookOperator \<Rightarrow> nat \<Rightarrow> nat \<Rightarrow> error + number" where
  "el op row col =
     (if row \<noteq> col then Inl ExcNotImplemented
      else if \<not> diagonal_is_available op then Inl ExcNotInitialized
      else (case diagonal_entries op of
              None \<Rightarrow> Inl NullPointer
            | Some d \<Rightarrow> vector_at d row))"

subsection \<open>Loops\<close>

text \<open>
  A counting loop \<open>for (i = a; i < b; ++i) body\<close> whose body can end the call is
  \<open>for_each body [a..<b]\<close>: the state is threaded through the iterations and the
  first failure is the result. A loop whose body cannot fail is a \<open>fold\<close> over the
  same index list.
\<close>
fun for_each :: "('i \<Rightarrow> 's \<Rightarrow> error + 's) \<Rightarrow> 'i list \<Rightarrow> 's \<Rightarrow> error + 's" where
  "for_each body [] s = Inr s"
| "for_each body (i # is) s =
     (case body i s of Inl e \<Rightarrow> Inl e | Inr s' \<Rightarrow> for_each body is s')"

subsection \<open>The kernel at the quadrature points of one cell\<close>

text \<open>One iteration of the lane loop (lines 392--394): the guarded
  \<open>JxW_scale[i] *= 1./JxW_current[i]\<close>.\<close>
definition rescale_lane :: "VectorizedArray \<Rightarrow> nat \<Rightarrow> VectorizedArray \<Rightarrow> VectorizedArray" where
  "rescale_lane JxW_current i JxW_scale =
     (if \<bar>JxW_current ! i\<bar> > 1 / 10 ^ 10
      then JxW_scale[i := JxW_scale ! i * (1 / JxW_current ! i)]
      else JxW_scale)"

text \<open>Lines 390--394: \<open>JxW_scale\<close> starts as a copy of \<open>phi_reference.JxW(q)\<close>.\<close>
definition compute_JxW_scale ::
  "nat \<Rightarrow> VectorizedArray \<Rightarrow> VectorizedArray \<Rightarrow> VectorizedArray" where
  "compute_JxW_scale n JxW_current JxW_reference =
     fold (rescale_lane JxW_current) [0..<n] JxW_reference"

text \<open>The product of a tensor with a \<open>VectorizedArray\<close>: every component is
  multiplied lane by lane.\<close>
definition tensor_times :: "Tensor \<Rightarrow> VectorizedArray \<Rightarrow> Tensor" where
  "tensor_times t s = map (\<lambda>c. map2 (\<lambda>x y. x * y) c s) t"

text \<open>The body of the loop over the quadrature points (lines 373--411). The state is
  the pair \<open>(phi_current, phi_current_s)\<close>; \<open>phi_reference\<close> is only read.\<close>
definition quadrature_point ::
  "('mf, 'fe) environment \<Rightarrow> 'mf NeoHookOperator \<Rightarrow> 'fe \<Rightarrow> nat \<Rightarrow> 'fe \<times> 'fe
     \<Rightarrow> error + 'fe \<times> 'fe" where
  "quadrature_point env op phi_reference q = (\<lambda>(phi_current, phi_current_s).
     let grad_u = get_gradient env phi_reference q;
         F = Kinematics_F env grad_u;
         det_F = determinant env F;
         F_bar = Kinematics_F_iso env F;
         b_bar = Kinematics_b env F_bar;
         grad_Nx_v = get_gradient env phi_current q;
         symm_grad_Nx_v = get_symmetric_gradient env phi_current q
     in case material op of
          None \<Rightarrow> Inl NullPointer
        | Some mat \<Rightarrow>
            let tau = get_tau mat det_F b_bar;
                tau_ns = symmetric_to_tensor env tau;
                jc_part = act_Jc mat det_F b_bar symm_grad_Nx_v;
                JxW_current = JxW env phi_current q;
                JxW_scale = compute_JxW_scale (n_array_elements env) JxW_current
                              (JxW env phi_reference q);
                phi_current_s' = submit_symmetric_gradient env
                                   (tensor_times jc_part JxW_scale) q phi_current_s;
                geo = egeo_grad env grad_Nx_v tau_ns;
                phi_current' = submit_gradient env (tensor_times geo JxW_scale) q phi_current
            in Inr (phi_current', phi_current_s'))"

text \<open>\<open>do_operation_on_cell\<close>; the three evaluators are passed by reference, so all
  three are returned. \<open>n_q_points\<close> is a constant member of an evaluator.\<close>
definition do_operation_on_cell ::
  "('mf, 'fe) environment \<Rightarrow> 'mf NeoHookOperator \<Rightarrow> 'fe \<Rightarrow> 'fe \<Rightarrow> 'fe \<Rightarrow> nat
     \<Rightarrow> error + 'fe \<times> 'fe \<times> 'fe" where
  "do_operation_on_cell env op phi_current phi_current_s phi_reference cell =
     (let phi_reference1 = evaluate env phi_reference;
          phi_current1 = evaluate env phi_current;
          phi_current_s1 = evaluate env phi_current_s
      in case for_each (quadrature_point env op phi_reference1)
                [0..<n_q_points env phi_current1] (phi_current1, phi_current_s1) of
           Inl e \<Rightarrow> Inl e
         | Inr (phi_current2, phi_current_s2) \<Rightarrow>
             Inr (integrate env phi_current2, integrate env phi_current_s2, phi_reference1))"

subsection \<open>The operator action\<close>

text \<open>Reading \<open>*displacement\<close>.\<close>
definition read_displacement ::
  "('mf, 'fe) environment \<Rightarrow> 'mf NeoHookOperator \<Rightarrow> error + Vector" where
  "read_displacement env op =
     (case displacement op of
        None \<Rightarrow> Inl NullPointer
      | Some a \<Rightarrow> (case heap env a of None \<Rightarrow> Inl NullPointer | Some u \<Rightarrow> Inr u))"

text \<open>The body of the cell loop of \<open>local_apply_cell\<close> (lines 266--279).\<close>
definition apply_on_cell ::
  "('mf, 'fe) environment \<Rightarrow> 'mf NeoHookOperator \<Rightarrow> Vector \<Rightarrow> nat
     \<Rightarrow> 'fe \<times> 'fe \<times> 'fe \<times> Vector \<Rightarrow> error + 'fe \<times> 'fe \<times> 'fe \<times> Vector" where
  "apply_on_cell env op src cell = (\<lambda>(phi_current, phi_current_s, phi_reference, dst).
     let phi_current1 = reinit env cell phi_current;
         phi_current_s1 = reinit env cell phi_current_s;
         phi_reference1 = reinit env cell phi_reference
     in case read_displacement env op of
          Inl e \<Rightarrow> Inl e
        | Inr u \<Rightarrow>
            let phi_reference2 = read_dof_values_plain env u phi_reference1;
                phi_current2 = read_dof_values env src phi_current1;
                phi_current_s2 = read_dof_values env src phi_current_s1
            in (case do_operation_on_cell env op phi_current2 phi_current_s2 phi_reference2 cell of
                  Inl e \<Rightarrow> Inl e
                | Inr (phi_current3, phi_current_s3, phi_reference3) \<Rightarrow>
                    let dst1 = distribute_local_to_global env phi_current3 dst;
                        dst2 = distribute_local_to_global env phi_current_s3 dst1
                    in Inr (phi_current3, phi_current_s3, phi_reference3, dst2)))"

definition local_apply_cell ::
  "('mf, 'fe) environment \<Rightarrow> 'mf NeoHookOperator \<Rightarrow> Vector \<Rightarrow> Vector \<Rightarrow> nat \<times> nat
     \<Rightarrow> error + Vector" where
  "local_apply_cell env op dst src cell_range =
     (case data_current op of
        None \<Rightarrow> Inl NullPointer
      | Some dc \<Rightarrow>
     (case data_reference op of
        None \<Rightarrow> Inl NullPointer
      | Some dr \<Rightarrow>
          let phi_current = FEEvaluation env dc;
              phi_current_s = FEEvaluation env dc;
              phi_reference = FEEvaluation env dr
          in if n_q_points env phi_current \<noteq> n_q_points env phi_reference
             then Inl ExcInternalError
             else (case for_each (apply_on_cell env op src)
                          [fst cell_range..<snd cell_range]
                          (phi_current, phi_current_s, phi_reference, dst) of
                     Inl e \<Rightarrow> Inl e
                   | Inr (phi_current', phi_current_s', phi_reference', dst') \<Rightarrow> Inr dst')))"

text \<open>Line 243, for one entry \<open>c\<close> of the list of constrained degrees of freedom:
  \<open>dst(c) += src(c)\<close>.\<close>
definition add_constrained_entry :: "Vector \<Rightarrow> nat \<Rightarrow> Vector \<Rightarrow> error + Vector" where
  "add_constrained_entry src c dst =
     (if c < length dst \<and> c < length src then Inr (dst[c := dst ! c + src ! c])
      else Inl ExcIndexRange)"

definition vmult_add ::
  "('mf, 'fe) environment \<Rightarrow> 'mf NeoHookOperator \<Rightarrow> Vector \<Rightarrow> Vector \<Rightarrow> error + Vector" where
  "vmult_add env op dst src =
     (case data_current op of
        None \<Rightarrow> Inl NullPointer
      | Some dc \<Rightarrow>
     (case data_reference op of
        None \<Rightarrow> Inl NullPointer
      | Some dr \<Rightarrow>
          if n_macro_cells env dc \<noteq> n_macro_cells env dr then Inl ExcInternalError
          else (case local_apply_cell env op dst src (0, n_macro_cells env dc) of
                  Inl e \<Rightarrow> Inl e
                | Inr dst1 \<Rightarrow>
                    for_each (add_constrained_entry src) (get_constrained_dofs env dc) dst1)))"

text \<open>\<open>dst = 0\<close> sets every entry of \<open>dst\<close> to zero and keeps its size.\<close>
definition vmult ::
  "('mf, 'fe) environment \<Rightarrow> 'mf NeoHookOperator \<Rightarrow> Vector \<Rightarrow> Vector \<Rightarrow> error + Vector" where
  "vmult env op dst src = vmult_add env op (replicate (length dst) 0) src"

definition Tvmult ::
  "('mf, 'fe) environment \<Rightarrow> 'mf NeoHookOperator \<Rightarrow> Vector \<Rightarrow> Vector \<Rightarrow> error + Vector" where
  "Tvmult env op dst src = vmult_add env op (replicate (length dst) 0) src"

definition Tvmult_add ::
  "('mf, 'fe) environment \<Rightarrow> 'mf NeoHookOperator \<Rightarrow> Vector \<Rightarrow> Vector \<Rightarrow> error + Vector" where
  "Tvmult_add env op dst src = vmult_add env op dst src"

subsection \<open>Diagonal extraction\<close>

text \<open>Lines 321--327: every local degree of freedom of both current-configuration
  evaluators is set to \<open>VectorizedArray<number>()\<close>, the zero batch.\<close>
definition zero_dof_values ::
  "('mf, 'fe) environment \<Rightarrow> nat \<Rightarrow> nat \<Rightarrow> 'fe \<times> 'fe \<Rightarrow> 'fe \<times> 'fe" where
  "zero_dof_values env dpc ncomp =
     fold (\<lambda>j. fold (\<lambda>jc (phi_current, phi_current_s).
                   let ind_j = j + jc * dpc
                   in (set_dof_value env ind_j (replicate (n_array_elements env) 0) phi_current,
                       set_dof_value env ind_j (replicate (n_array_elements env) 0) phi_current_s))
                 [0..<ncomp])
          [0..<dpc]"

text \<open>Lines 320--338: the probe of the local degree of freedom \<open>(i, ic)\<close>. The state is
  the three evaluators and \<open>local_diagonal_vector\<close>.\<close>
definition probe_dof ::
  "('mf, 'fe) environment \<Rightarrow> 'mf NeoHookOperator \<Rightarrow> nat \<Rightarrow> nat \<Rightarrow> nat \<Rightarrow> nat \<Rightarrow> nat
     \<Rightarrow> 'fe \<times> 'fe \<times> 'fe \<times> VectorizedArray list
     \<Rightarrow> error + 'fe \<times> 'fe \<times> 'fe \<times> VectorizedArray list" where
  "probe_dof env op cell dpc ncomp i ic =
     (\<lambda>(phi_current, phi_current_s, phi_reference, local_diagonal_vector).
        let zeroed = zero_dof_values env dpc ncomp (phi_current, phi_current_s);
            ind_i = i + ic * dpc;
            phi_current1 = set_dof_value env ind_i (replicate (n_array_elements env) 1) (fst zeroed);
            phi_current_s1 = set_dof_value env ind_i (replicate (n_array_elements env) 1) (snd zeroed)
        in (case do_operation_on_cell env op phi_current1 phi_current_s1 phi_reference cell of
              Inl e \<Rightarrow> Inl e
            | Inr (phi_current2, phi_current_s2, phi_reference2) \<Rightarrow>
                Inr (phi_current2, phi_current_s2, phi_reference2,
                     local_diagonal_vector
                       [ind_i := map2 (\<lambda>x y. x + y)
                                   (begin_dof_values env phi_current2 ! ind_i)
                                   (begin_dof_values env phi_current_s2 ! ind_i)])))"

text \<open>Lines 346--351: the probed values are written into \<open>phi_current\<close>.\<close>
definition write_local_diagonal ::
  "('mf, 'fe) environment \<Rightarrow> nat \<Rightarrow> nat \<Rightarrow> VectorizedArray list \<Rightarrow> 'fe \<Rightarrow> 'fe" where
  "write_local_diagonal env dpc ncomp local_diagonal_vector =
     fold (\<lambda>i. fold (\<lambda>ic phi_current.
                   let ind_i = i + ic * dpc
                   in set_dof_value env ind_i (local_diagonal_vector ! ind_i) phi_current)
                 [0..<ncomp])
          [0..<dpc]"

text \<open>The body of the cell loop of \<open>local_diagonal_cell\<close> (lines 300--353).
  \<open>dofs_per_component\<close> and \<open>n_components\<close> are constant members of an evaluator.\<close>
definition diagonal_on_cell ::
  "('mf, 'fe) environment \<Rightarrow> 'mf NeoHookOperator \<Rightarrow> nat
     \<Rightarrow> 'fe \<times> 'fe \<times> 'fe \<times> Vector \<Rightarrow> error + 'fe \<times> 'fe \<times> 'fe \<times> Vector" where
  "diagonal_on_cell env op cell = (\<lambda>(phi_current, phi_current_s, phi_reference, dst).
     let phi_current1 = reinit env cell phi_current;
         phi_current_s1 = reinit env cell phi_current_s;
         phi_reference1 = reinit env cell phi_reference
     in case read_displacement env op of
          Inl e \<Rightarrow> Inl e
        | Inr u \<Rightarrow>
            let phi_reference2 = read_dof_values_plain env u phi_reference1;
                phi_current2 = read_dof_values env u phi_current1;
                phi_current_s2 = read_dof_values env u phi_current_s1;
                dpc = dofs_per_component env phi_current2;
                ncomp = n_components env phi_current2;
                local_diagonal_vector = replicate (dpc * ncomp) (replicate (n_array_elements env) 0)
            in (case for_each (\<lambda>i. for_each (probe_dof env op cell dpc ncomp i) [0..<ncomp])
                       [0..<dpc]
                       (phi_current2, phi_current_s2, phi_reference2, local_diagonal_vector) of
                  Inl e \<Rightarrow> Inl e
                | Inr (phi_current3, phi_current_s3, phi_reference3, local_diagonal_vector3) \<Rightarrow>
                    let phi_current4 =
                          write_local_diagonal env dpc ncomp local_diagonal_vector3 phi_current3
                    in Inr (phi_current4, phi_current_s3, phi_reference3,
                            distribute_local_to_global env phi_current4 dst)))"

definition local_diagonal_cell ::
  "('mf, 'fe) environment \<Rightarrow> 'mf NeoHookOperator \<Rightarrow> Vector \<Rightarrow> nat \<times> nat \<Rightarrow> error + Vector" where
  "local_diagonal_cell env op dst cell_range =
     (case data_current op of
        None \<Rightarrow> Inl NullPointer
      | Some dc \<Rightarrow>
     (case data_reference op of
        None \<Rightarrow> Inl NullPointer
      | Some dr \<Rightarrow>
          (case for_each (diagonal_on_cell env op) [fst cell_range..<snd cell_range]
                  (FEEvaluation env dc, FEEvaluation env dc, FEEvaluation env dr, dst) of
             Inl e \<Rightarrow> Inl e
           | Inr (phi_current', phi_current_s', phi_reference', dst') \<Rightarrow> Inr dst')))"

text \<open>Line 449, for one entry \<open>c\<close> of the list of constrained degrees of freedom:
  \<open>diagonal_vector(c) = 1.\<close>\<close>
definition set_constrained_entry_to_one :: "nat \<Rightarrow> Vector \<Rightarrow> error + Vector" where
  "set_constrained_entry_to_one c diagonal_vector =
     (if c < length diagonal_vector then Inr (diagonal_vector[c := 1])
      else Inl ExcIndexRange)"

text \<open>Lines 456--459, for one index.\<close>
definition invert_entry :: "number \<Rightarrow> nat \<Rightarrow> Vector \<Rightarrow> Vector" where
  "invert_entry eps i inverse_diagonal_vector =
     (if \<bar>inverse_diagonal_vector ! i\<bar> > sqrt eps
      then inverse_diagonal_vector[i := 1 / inverse_diagonal_vector ! i]
      else inverse_diagonal_vector[i := 1])"

text \<open>Lines 453--459: the copy of the diagonal, inverted or clamped entry by entry.\<close>
definition invert_diagonal :: "number \<Rightarrow> Vector \<Rightarrow> Vector" where
  "invert_diagonal eps diagonal_vector =
     fold (invert_entry eps) [0..<length diagonal_vector] diagonal_vector"

text \<open>
  \<open>compute_diagonal\<close> runs four blocks in sequence on the members of the object.
  First block (lines 429--439): the two \<open>DiagonalMatrix\<close> objects are replaced by new
  ones, \<open>initialize_dof_vector\<close> gives both vectors the size of the degree-of-freedom
  vector with all entries zero, and the cell loop probes into \<open>diagonal_vector\<close>.
\<close>
definition compute_diagonal_probe ::
  "('mf, 'fe) environment \<Rightarrow> 'mf NeoHookOperator \<Rightarrow> error + 'mf NeoHookOperator" where
  "compute_diagonal_probe env op =
     (case data_current op of
        None \<Rightarrow> Inl NullPointer
      | Some dc \<Rightarrow>
          let op1 = op \<lparr> inverse_diagonal_entries := Some (replicate (n_dofs env dc) 0),
                         diagonal_entries := Some (replicate (n_dofs env dc) 0) \<rparr>
          in (case local_diagonal_cell env op1 (replicate (n_dofs env dc) 0)
                     (0, n_macro_cells env dc) of
                Inl e \<Rightarrow> Inl e
              | Inr diagonal_vector \<Rightarrow> Inr (op1 \<lparr> diagonal_entries := Some diagonal_vector \<rparr>)))"

text \<open>Second block (lines 444--450): the constrained entries are set to one.\<close>
definition compute_diagonal_constrained ::
  "('mf, 'fe) environment \<Rightarrow> 'mf NeoHookOperator \<Rightarrow> error + 'mf NeoHookOperator" where
  "compute_diagonal_constrained env op =
     (case data_current op of
        None \<Rightarrow> Inl NullPointer
      | Some dc \<Rightarrow>
     (case diagonal_entries op of
        None \<Rightarrow> Inl NullPointer
      | Some diagonal_vector \<Rightarrow>
          (case for_each set_constrained_entry_to_one (get_constrained_dofs env dc)
                  diagonal_vector of
             Inl e \<Rightarrow> Inl e
           | Inr diagonal_vector' \<Rightarrow> Inr (op \<lparr> diagonal_entries := Some diagonal_vector' \<rparr>))))"

text \<open>Third block (lines 452--459): the inverse diagonal.\<close>
definition compute_diagonal_inverse ::
  "('mf, 'fe) environment \<Rightarrow> 'mf NeoHookOperator \<Rightarrow> error + 'mf NeoHookOperator" where
  "compute_diagonal_inverse env op =
     (case diagonal_entries op of
        None \<Rightarrow> Inl NullPointer
      | Some diagonal_vector \<Rightarrow>
          Inr (op \<lparr> inverse_diagonal_entries :=
                      Some (invert_diagonal (epsilon env) diagonal_vector) \<rparr>))"

text \<open>The whole function; its last statement (line 464) sets the flag.\<close>
definition compute_diagonal ::
  "('mf, 'fe) environment \<Rightarrow> 'mf NeoHookOperator \<Rightarrow> error + 'mf NeoHookOperator" where
  "compute_diagonal env op =
     (case compute_diagonal_probe env op of
        Inl e \<Rightarrow> Inl e
      | Inr op1 \<Rightarrow>
     (case compute_diagonal_constrained env op1 of
        Inl e \<Rightarrow> Inl e
      | Inr op2 \<Rightarrow>
     (case compute_diagonal_inverse env op2 of
        Inl e \<Rightarrow> Inl e
      | Inr op3 \<Rightarrow> Inr (op3 \<lparr> diagonal_is_available := True \<rparr>))))"

subsection \<open>A small concrete setting\<close>

text \<open>
  The theorems below are exercised on one concrete collaborator: a mesh of one cell
  batch with two local degrees of freedom, one vector component, one quadrature point
  and one SIMD lane, over three global degrees of freedom. Global index 0 is
  constrained (it is read as zero and never scattered to), index 1 belongs to the
  cell, index 2 belongs to no cell. An evaluation context is its integration weight
  and its two counts; an evaluator is its context with the local value buffer, which
  also serves as the gradient at the single quadrature point.
\<close>
record example_context =
  weight :: number
  cells :: nat
  quadrature_points :: nat

definition example_environment ::
  "(example_context, example_context \<times> VectorizedArray list) environment" where
  "example_environment =
     \<lparr> n_array_elements = 1,
       epsilon = 1 / 2 ^ 52,
       heap = (\<lambda>a. if a = 0 then Some [1 / 10, 1 / 5, 0] else None),
       n_macro_cells = cells,
       get_constrained_dofs = (\<lambda>mf. [0]),
       n_dofs = (\<lambda>mf. 3),
       FEEvaluation = (\<lambda>mf. (mf, [])),
       n_q_points = (\<lambda>fe. quadrature_points (fst fe)),
       dofs_per_component = (\<lambda>fe. 2),
       n_components = (\<lambda>fe. 1),
       reinit = (\<lambda>cell fe. fe),
       read_dof_values = (\<lambda>v fe. (fst fe, [[0], [v ! 1]])),
       read_dof_values_plain = (\<lambda>v fe. (fst fe, [[v ! 0], [v ! 1]])),
       begin_dof_values = snd,
       set_dof_value = (\<lambda>i x fe. (fst fe, (snd fe)[i := x])),
       evaluate = (\<lambda>fe. fe),
       get_gradient = (\<lambda>fe q. snd fe),
       get_symmetric_gradient = (\<lambda>fe q. snd fe),
       JxW = (\<lambda>fe q. [weight (fst fe)]),
       submit_gradient = (\<lambda>t q fe. (fst fe, t)),
       submit_symmetric_gradient = (\<lambda>t q fe. (fst fe, t)),
       integrate = (\<lambda>fe. fe),
       distribute_local_to_global = (\<lambda>fe dst. dst[1 := dst ! 1 + snd fe ! 1 ! 0]),
       Kinematics_F = (\<lambda>t. t),
       determinant = (\<lambda>t. [1]),
       Kinematics_F_iso = (\<lambda>t. t),
       Kinematics_b = (\<lambda>t. t),
       symmetric_to_tensor = (\<lambda>t. t),
       egeo_grad = (\<lambda>g t. g) \<rparr>"

definition example_material :: Material where
  "example_material = \<lparr> get_tau = (\<lambda>det_F b_bar. b_bar),
                         act_Jc = (\<lambda>det_F b_bar s. s) \<rparr>"

definition example_current :: example_context where
  "example_current = \<lparr> weight = 1 / 2, cells = 1, quadrature_points = 1 \<rparr>"

definition example_reference :: example_context where
  "example_reference = \<lparr> weight = 1, cells = 1, quadrature_points = 1 \<rparr>"

text \<open>The operator after \<open>set_material\<close> and \<open>initialize\<close>, the displacement at
  address 0.\<close>
definition example_operator :: "example_context NeoHookOperator" where
  "example_operator =
     initialize example_current example_reference 0
       (set_material example_material NeoHookOperator_ctor)"

text \<open>The state \<open>compute_diagonal\<close> leaves the operator in, in this setting.\<close>
definition example_operator_with_diagonal :: "example_context NeoHookOperator" where
  "example_operator_with_diagonal =
     example_operator \<lparr> inverse_diagonal_entries := Some [1, 1 / 4, 1],
                        diagonal_entries := Some [1, 4, 0],
                        diagonal_is_available := True \<rparr>"

section \<open>Properties\<close>

subsection \<open>Evaluation in the concrete settings\<close>

lemma upt_0_1: "[0..<1] = [0]"
  by (simp add: upt_rec)

lemma upt_0_2: "[0..<2] = [0, 1]"
  by (simp add: upt_rec)

lemma upt_0_3: "[0..<3] = [0, 1, 2]"
  by (simp add: upt_rec)

text \<open>The square root of \<open>2\<^sup>-\<^sup>5\<^sup>2\<close> is \<open>2\<^sup>-\<^sup>2\<^sup>6\<close>.\<close>
lemma sqrt_example_epsilon: "sqrt (1 / 4503599627370496) = 1 / 67108864"
proof -
  have "sqrt (1 / 4503599627370496) = sqrt ((1 / 67108864)\<^sup>2)"
    by (simp add: power_divide)
  also have "\<dots> = \<bar>1 / 67108864\<bar>"
    by (rule real_sqrt_abs)
  finally show ?thesis by simp
qed

lemmas example_defs =
  example_operator_def initialize_def set_material_def NeoHookOperator_ctor_def
  example_environment_def example_current_def example_reference_def example_material_def

lemmas kernel_defs =
  do_operation_on_cell_def quadrature_point_def read_displacement_def
  compute_JxW_scale_def rescale_lane_def tensor_times_def

lemma example_compute_diagonal:
  "compute_diagonal example_environment example_operator = Inr example_operator_with_diagonal"
  by (simp add: example_operator_with_diagonal_def compute_diagonal_def
      compute_diagonal_probe_def compute_diagonal_constrained_def compute_diagonal_inverse_def
      local_diagonal_cell_def diagonal_on_cell_def probe_dof_def zero_dof_values_def
      write_local_diagonal_def set_constrained_entry_to_one_def invert_diagonal_def
      invert_entry_def example_defs kernel_defs upt_0_1 upt_0_2 upt_0_3 Let_def
      sqrt_example_epsilon numeral_3_eq_3)

subsection \<open>Loops\<close>

lemma for_each_error_from_body:
  "for_each body xs s = Inl e \<Longrightarrow> \<exists>i\<in>set xs. \<exists>s'. body i s' = Inl e"
  by (induction xs arbitrary: s) (auto split: sum.splits)

text \<open>A property every iteration keeps holds after the loop.\<close>
lemma for_each_invariant:
  assumes "for_each body xs s = Inr s'"
    and "\<And>i t t'. body i t = Inr t' \<Longrightarrow> P t \<Longrightarrow> P t'"
    and "P s"
  shows "P s'"
  using assms
proof (induction xs arbitrary: s)
  case Nil
  then show ?case by simp
next
  case (Cons x xs)
  from Cons.prems(1) obtain s1 where first: "body x s = Inr s1"
    and rest: "for_each body xs s1 = Inr s'"
    by (auto split: sum.splits)
  from Cons.prems(2) [OF first Cons.prems(3)] have "P s1" .
  from Cons.IH [OF rest Cons.prems(2) this] show ?case .
qed

subsection \<open>The two loops over the diagonal\<close>

lemma set_constrained_entry_to_one_Inr:
  "set_constrained_entry_to_one c v = Inr v1 \<Longrightarrow> c < length v \<and> v1 = v[c := 1]"
  by (simp add: set_constrained_entry_to_one_def split: if_splits)

lemma set_constrained_entries_to_one:
  "for_each set_constrained_entry_to_one cs v = Inr v' \<Longrightarrow>
     length v' = length v \<and> (\<forall>k\<in>set cs. k < length v \<and> v' ! k = 1) \<and>
     (\<forall>i. v ! i = 1 \<longrightarrow> v' ! i = 1)"
proof (induction cs arbitrary: v)
  case Nil
  then show ?case by simp
next
  case (Cons c cs)
  from Cons.prems obtain v1 where first: "set_constrained_entry_to_one c v = Inr v1"
    and rest: "for_each set_constrained_entry_to_one cs v1 = Inr v'"
    by (auto split: sum.splits)
  from set_constrained_entry_to_one_Inr [OF first]
  have c: "c < length v" and v1: "v1 = v[c := 1]" by simp_all
  from Cons.IH [OF rest] c show ?case
    unfolding v1 by (auto simp: nth_list_update)
qed

lemma invert_entry_length: "length (invert_entry eps i v) = length v"
  by (simp add: invert_entry_def)

lemma invert_entry_nth:
  "i < length v \<Longrightarrow> j < length v \<Longrightarrow>
   invert_entry eps i v ! j =
     (if j = i then (if \<bar>v ! i\<bar> > sqrt eps then 1 / v ! i else 1) else v ! j)"
  by (simp add: invert_entry_def)

text \<open>After \<open>n\<close> iterations the first \<open>n\<close> entries are inverted or clamped and the
  others still hold the diagonal.\<close>
lemma invert_prefix:
  "n \<le> length v \<Longrightarrow>
   length (fold (invert_entry eps) [0..<n] v) = length v \<and>
   (\<forall>i<length v. fold (invert_entry eps) [0..<n] v ! i =
      (if i < n then (if \<bar>v ! i\<bar> > sqrt eps then 1 / v ! i else 1) else v ! i))"
proof (induction n)
  case 0
  then show ?case by simp
next
  case (Suc n)
  define w where "w = fold (invert_entry eps) [0..<n] v"
  from Suc have len: "length w = length v"
    and nth: "\<And>i. i < length v \<Longrightarrow>
      w ! i = (if i < n then (if \<bar>v ! i\<bar> > sqrt eps then 1 / v ! i else 1) else v ! i)"
    by (auto simp: w_def)
  from Suc.prems have n: "n < length v" by simp
  have step: "fold (invert_entry eps) [0..<Suc n] v = invert_entry eps n w"
    by (simp add: w_def)
  show ?case
    unfolding step using len n nth
    by (simp add: invert_entry_length invert_entry_nth less_Suc_eq)
qed

lemma invert_diagonal_entries:
  "length (invert_diagonal eps v) = length v \<and>
   (\<forall>i<length v. invert_diagonal eps v ! i =
      (if \<bar>v ! i\<bar> > sqrt eps then 1 / v ! i else 1))"
  using invert_prefix [of "length v" v eps] by (simp add: invert_diagonal_def)

subsection \<open>The blocks of \<open>compute_diagonal\<close>\<close>

lemma compute_diagonal_probe_Inr:
  "compute_diagonal_probe env op = Inr op1 \<Longrightarrow>
   \<exists>dc v. data_current op = Some dc \<and>
     op1 = op \<lparr> inverse_diagonal_entries := Some (replicate (n_dofs env dc) 0),
                  diagonal_entries := Some v \<rparr>"
  by (auto simp: compute_diagonal_probe_def Let_def split: option.splits sum.splits)

lemma compute_diagonal_constrained_Inr:
  "compute_diagonal_constrained env op = Inr op2 \<Longrightarrow>
   \<exists>dc v v'. data_current op = Some dc \<and> diagonal_entries op = Some v \<and>
     for_each set_constrained_entry_to_one (get_constrained_dofs env dc) v = Inr v' \<and>
     op2 = op \<lparr> diagonal_entries := Some v' \<rparr>"
  by (auto simp: compute_diagonal_constrained_def split: option.splits sum.splits)

lemma compute_diagonal_inverse_Inr:
  "compute_diagonal_inverse env op = Inr op3 \<Longrightarrow>
   \<exists>v. diagonal_entries op = Some v \<and>
     op3 = op \<lparr> inverse_diagonal_entries := Some (invert_diagonal (epsilon env) v) \<rparr>"
  by (auto simp: compute_diagonal_inverse_def split: option.splits)

lemma compute_diagonal_Inr:
  "compute_diagonal env op = Inr op' \<Longrightarrow>
   \<exists>op1 op2 op3. compute_diagonal_probe env op = Inr op1 \<and>
     compute_diagonal_constrained env op1 = Inr op2 \<and>
     compute_diagonal_inverse env op2 = Inr op3 \<and>
     op' = op3 \<lparr> diagonal_is_available := True \<rparr>"
  by (auto simp: compute_diagonal_def split: sum.splits)

text \<open>What a completed \<open>compute_diagonal\<close> leaves in the object.\<close>
lemma compute_diagonal_result:
  assumes "compute_diagonal env op = Inr op'"
  shows "\<exists>dc v v'. data_current op = Some dc \<and>
     for_each set_constrained_entry_to_one (get_constrained_dofs env dc) v = Inr v' \<and>
     diagonal_entries op' = Some v' \<and>
     inverse_diagonal_entries op' = Some (invert_diagonal (epsilon env) v') \<and>
     diagonal_is_available op'"
proof -
  from compute_diagonal_Inr [OF assms] obtain op1 op2 op3 where
    p: "compute_diagonal_probe env op = Inr op1" and
    c: "compute_diagonal_constrained env op1 = Inr op2" and
    i: "compute_diagonal_inverse env op2 = Inr op3" and
    m: "op' = op3 \<lparr> diagonal_is_available := True \<rparr>"
    by blast
  from compute_diagonal_probe_Inr [OF p] obtain dc v0 where
    dc: "data_current op = Some dc" and
    op1: "op1 = op \<lparr> inverse_diagonal_entries := Some (replicate (n_dofs env dc) 0),
                      diagonal_entries := Some v0 \<rparr>"
    by blast
  from compute_diagonal_constrained_Inr [OF c] obtain dc' v v' where
    dc': "data_current op1 = Some dc'" and v: "diagonal_entries op1 = Some v" and
    loop: "for_each set_constrained_entry_to_one (get_constrained_dofs env dc') v = Inr v'" and
    op2: "op2 = op1 \<lparr> diagonal_entries := Some v' \<rparr>"
    by blast
  from dc dc' op1 have same: "dc' = dc" by simp
  from compute_diagonal_inverse_Inr [OF i] obtain w where
    w: "diagonal_entries op2 = Some w" and
    op3: "op3 = op2 \<lparr> inverse_diagonal_entries := Some (invert_diagonal (epsilon env) w) \<rparr>"
    by blast
  from w op2 have ww: "w = v'" by simp
  show ?thesis
    using dc loop same
    by (intro exI [of _ dc] exI [of _ v] exI [of _ v']) (simp add: m op3 op2 ww)
qed

subsection \<open>Release and rebinding\<close>

text \<open>
  Claim C10. \<open>clear\<close> empties the two context pointers and the two diagonal objects
  and resets the flag; the material pointer and the displacement pointer keep their
  values. An \<open>initialize\<close> after a \<open>clear\<close> therefore finds the material that was set
  before, without a new \<open>set_material\<close>.
\<close>
theorem clear_keeps_material_and_displacement:
  "material (clear op) = material op \<and>
   displacement (clear op) = displacement op \<and>
   data_current (clear op) = None \<and>
   data_reference (clear op) = None \<and>
   diagonal_entries (clear op) = None \<and>
   inverse_diagonal_entries (clear op) = None \<and>
   diagonal_is_available (clear op) = False \<and>
   material (initialize c r d (clear op)) = material op \<and>
   material (initialize c r d (clear (set_material m op))) = Some m"
  by (simp add: clear_def initialize_def set_material_def)

subsection \<open>Transpose variants\<close>

text \<open>
  Claim C6. \<open>Tvmult\<close> gives the result of \<open>vmult\<close> and \<open>Tvmult_add\<close> the result of
  \<open>vmult_add\<close>, for every destination and source vector: the transpose variants run
  the forward action.
\<close>
theorem transpose_variants_reuse_forward_action:
  "Tvmult env op dst src = vmult env op dst src \<and>
   Tvmult_add env op dst src = vmult_add env op dst src"
  by (simp add: Tvmult_def vmult_def Tvmult_add_def)

subsection \<open>Diagonal access\<close>

text \<open>
  Claim C7. \<open>el\<close> fails with \<open>ExcNotImplemented\<close> whenever \<open>row \<noteq> col\<close>. On the
  diagonal it fails with \<open>ExcNotInitialized\<close> unless the availability flag is set,
  and with the flag set it returns the entry of the stored diagonal (not of the
  inverse diagonal) at that row. The state a completed \<open>compute_diagonal\<close> leaves is
  such a state: there \<open>el\<close> returns the diagonal entry at every row of the vector.
\<close>
theorem el_contract:
  "(row \<noteq> col \<longrightarrow> el op row col = Inl ExcNotImplemented) \<and>
   (\<not> diagonal_is_available op \<longrightarrow> el op row row = Inl ExcNotInitialized) \<and>
   (diagonal_is_available op \<and> diagonal_entries op = Some d \<and> row < length d \<longrightarrow>
      el op row row = Inr (d ! row)) \<and>
   (compute_diagonal env op0 = Inr op \<longrightarrow>
      (\<exists>v. diagonal_entries op = Some v \<and>
           (row < length v \<longrightarrow> el op row row = Inr (v ! row))))"
proof -
  have "\<exists>v. diagonal_entries op = Some v \<and>
           (row < length v \<longrightarrow> el op row row = Inr (v ! row))"
    if "compute_diagonal env op0 = Inr op"
    using compute_diagonal_result [OF that] by (auto simp: el_def vector_at_def)
  then show ?thesis
    by (simp add: el_def vector_at_def)
qed

text \<open>In the concrete setting: an off-diagonal request, a request before
  \<open>compute_diagonal\<close>, and the entry \<open>4\<close> of the diagonal, whose inverse is \<open>1/4\<close>.\<close>
theorem el_contract_witness:
  "el example_operator_with_diagonal 0 1 = Inl ExcNotImplemented \<and>
   el example_operator 1 1 = Inl ExcNotInitialized \<and>
   compute_diagonal example_environment example_operator = Inr example_operator_with_diagonal \<and>
   inverse_diagonal_entries example_operator_with_diagonal = Some [1, 1 / 4, 1] \<and>
   el example_operator_with_diagonal 1 1 = Inr 4"
proof -
  note run = example_compute_diagonal
  have stored: "diagonal_entries example_operator_with_diagonal = Some [1, 4, 0]"
    and inverse: "inverse_diagonal_entries example_operator_with_diagonal = Some [1, 1 / 4, 1]"
    by (simp_all add: example_operator_with_diagonal_def)
  have unavailable: "\<not> diagonal_is_available example_operator"
    by (simp add: example_defs)
  have "el example_operator_with_diagonal 0 1 = Inl ExcNotImplemented"
    using el_contract [where row = 0 and col = 1 and op = example_operator_with_diagonal
                         and d = "[1, 4, 0]" and env = example_environment
                         and ?op0.0 = example_operator]
    by simp
  moreover have "el example_operator 1 1 = Inl ExcNotInitialized"
    using el_contract [where row = 1 and col = 1 and op = example_operator
                         and d = "[1, 4, 0]" and env = example_environment
                         and ?op0.0 = example_operator] unavailable
    by simp
  moreover have "el example_operator_with_diagonal 1 1 = Inr 4"
    using el_contract [where row = 1 and col = 1 and op = example_operator_with_diagonal
                         and d = "[1, 4, 0]" and env = example_environment
                         and ?op0.0 = example_operator] run stored
    by simp
  ultimately show ?thesis
    using run inverse by simp
qed

subsection \<open>Diagonal extraction\<close>

text \<open>
  Claim C4. After \<open>compute_diagonal\<close> has completed, the inverse diagonal has the size
  of the diagonal, and at every index its entry is the reciprocal of the diagonal
  entry where the magnitude of that entry exceeds the square root of the machine
  epsilon, and exactly one everywhere else.
\<close>
theorem compute_diagonal_inverse_entries:
  assumes "compute_diagonal env op = Inr op'"
  shows "\<exists>diagonal_vector inverse_diagonal_vector.
     diagonal_entries op' = Some diagonal_vector \<and>
     inverse_diagonal_entries op' = Some inverse_diagonal_vector \<and>
     length inverse_diagonal_vector = length diagonal_vector \<and>
     (\<forall>i<length diagonal_vector.
        inverse_diagonal_vector ! i =
          (if \<bar>diagonal_vector ! i\<bar> > sqrt (epsilon env) then 1 / diagonal_vector ! i else 1))"
proof -
  from compute_diagonal_result [OF assms] obtain v' where
    "diagonal_entries op' = Some v'"
    "inverse_diagonal_entries op' = Some (invert_diagonal (epsilon env) v')"
    by blast
  then show ?thesis
    using invert_diagonal_entries [of "epsilon env" v'] by simp
qed

text \<open>In the concrete setting the diagonal is \<open>[1, 4, 0]\<close>: the entry \<open>4\<close> is inverted,
  the entry \<open>0\<close> of the degree of freedom no cell touches is clamped to one.\<close>
theorem compute_diagonal_inverse_entries_witness:
  "compute_diagonal example_environment example_operator = Inr example_operator_with_diagonal \<and>
   diagonal_entries example_operator_with_diagonal = Some [1, 4, 0] \<and>
   inverse_diagonal_entries example_operator_with_diagonal = Some [1, 1 / 4, 1] \<and>
   (\<exists>diagonal_vector inverse_diagonal_vector.
     diagonal_entries example_operator_with_diagonal = Some diagonal_vector \<and>
     inverse_diagonal_entries example_operator_with_diagonal = Some inverse_diagonal_vector \<and>
     length inverse_diagonal_vector = length diagonal_vector \<and>
     (\<forall>i<length diagonal_vector.
        inverse_diagonal_vector ! i =
          (if \<bar>diagonal_vector ! i\<bar> > sqrt (epsilon example_environment)
           then 1 / diagonal_vector ! i else 1)))"
proof -
  note run = example_compute_diagonal
  from compute_diagonal_inverse_entries [OF run] run show ?thesis
    by (simp add: example_operator_with_diagonal_def)
qed

text \<open>
  Claim C5. After \<open>compute_diagonal\<close> has completed, the diagonal holds exactly one at
  every index of the list of constrained degrees of freedom, whatever the cell loop
  scattered there.
\<close>
theorem compute_diagonal_constrained_entries:
  assumes "compute_diagonal env op = Inr op'" and "data_current op = Some dc"
  shows "\<exists>diagonal_vector. diagonal_entries op' = Some diagonal_vector \<and>
     (\<forall>k\<in>set (get_constrained_dofs env dc).
        k < length diagonal_vector \<and> diagonal_vector ! k = 1)"
proof -
  from compute_diagonal_result [OF assms(1)] assms(2) obtain v v' where
    loop: "for_each set_constrained_entry_to_one (get_constrained_dofs env dc) v = Inr v'" and
    d: "diagonal_entries op' = Some v'"
    by auto
  from set_constrained_entries_to_one [OF loop] d show ?thesis by simp
qed

theorem compute_diagonal_constrained_entries_witness:
  "compute_diagonal example_environment example_operator = Inr example_operator_with_diagonal \<and>
   data_current example_operator = Some example_current \<and>
   get_constrained_dofs example_environment example_current = [0] \<and>
   (\<exists>diagonal_vector. diagonal_entries example_operator_with_diagonal = Some diagonal_vector \<and>
      0 < length diagonal_vector \<and> diagonal_vector ! 0 = 1)"
proof -
  note run = example_compute_diagonal
  have dc: "data_current example_operator = Some example_current"
    by (simp add: example_operator_def initialize_def)
  have cd: "get_constrained_dofs example_environment example_current = [0]"
    by (simp add: example_environment_def)
  from compute_diagonal_constrained_entries [OF run dc] run dc cd show ?thesis
    by simp
qed

text \<open>
  Claim C9. The availability flag is false in a newly constructed operator and after
  every \<open>clear\<close>; \<open>initialize\<close> and \<open>set_material\<close> leave it as it is. Inside
  \<open>compute_diagonal\<close> the probing block, the constrained-entry block and the
  inversion block leave it as it is as well, and a completed \<open>compute_diagonal\<close> is
  these three blocks, in this order, followed by the assignment of \<open>true\<close>.
\<close>
theorem diagonal_is_available_protocol:
  "diagonal_is_available NeoHookOperator_ctor = False \<and>
   diagonal_is_available (clear op) = False \<and>
   diagonal_is_available (initialize c r d op) = diagonal_is_available op \<and>
   diagonal_is_available (set_material m op) = diagonal_is_available op \<and>
   (compute_diagonal_probe env op = Inr op1 \<longrightarrow>
      diagonal_is_available op1 = diagonal_is_available op) \<and>
   (compute_diagonal_constrained env op = Inr op1 \<longrightarrow>
      diagonal_is_available op1 = diagonal_is_available op) \<and>
   (compute_diagonal_inverse env op = Inr op1 \<longrightarrow>
      diagonal_is_available op1 = diagonal_is_available op) \<and>
   (compute_diagonal env op = Inr op' \<longrightarrow>
      diagonal_is_available op' \<and>
      (\<exists>op1 op2 op3. compute_diagonal_probe env op = Inr op1 \<and>
         compute_diagonal_constrained env op1 = Inr op2 \<and>
         compute_diagonal_inverse env op2 = Inr op3 \<and>
         op' = op3 \<lparr> diagonal_is_available := True \<rparr>))"
proof -
  have "compute_diagonal_probe env op = Inr op1 \<Longrightarrow>
      diagonal_is_available op1 = diagonal_is_available op"
    by (auto dest: compute_diagonal_probe_Inr)
  moreover have "compute_diagonal_constrained env op = Inr op1 \<Longrightarrow>
      diagonal_is_available op1 = diagonal_is_available op"
    by (auto dest: compute_diagonal_constrained_Inr)
  moreover have "compute_diagonal_inverse env op = Inr op1 \<Longrightarrow>
      diagonal_is_available op1 = diagonal_is_available op"
    by (auto dest: compute_diagonal_inverse_Inr)
  moreover have "compute_diagonal env op = Inr op' \<Longrightarrow>
      diagonal_is_available op' \<and>
      (\<exists>op1 op2 op3. compute_diagonal_probe env op = Inr op1 \<and>
         compute_diagonal_constrained env op1 = Inr op2 \<and>
         compute_diagonal_inverse env op2 = Inr op3 \<and>
         op' = op3 \<lparr> diagonal_is_available := True \<rparr>)"
    using compute_diagonal_Inr [of env op op'] by auto
  ultimately show ?thesis
    by (simp add: NeoHookOperator_ctor_def clear_def initialize_def set_material_def)
qed

theorem diagonal_is_available_protocol_witness:
  "diagonal_is_available (NeoHookOperator_ctor :: example_context NeoHookOperator) = False \<and>
   diagonal_is_available (clear example_operator_with_diagonal) = False \<and>
   diagonal_is_available example_operator = False \<and>
   compute_diagonal example_environment example_operator = Inr example_operator_with_diagonal \<and>
   diagonal_is_available example_operator_with_diagonal = True"
proof -
  note run = example_compute_diagonal
  from diagonal_is_available_protocol
         [where op = example_operator and env = example_environment
            and op' = example_operator_with_diagonal]
       diagonal_is_available_protocol
         [where op = example_operator_with_diagonal and env = example_environment]
       run
  show ?thesis
    by (simp add: example_operator_def initialize_def set_material_def NeoHookOperator_ctor_def)
qed

subsection \<open>The rescale factor at a quadrature point\<close>

lemma rescale_lane_length: "length (rescale_lane c i s) = length s"
  by (simp add: rescale_lane_def)

lemma rescale_lane_nth:
  "i < length s \<Longrightarrow> j < length s \<Longrightarrow>
   rescale_lane c i s ! j =
     (if j = i \<and> \<bar>c ! i\<bar> > 1 / 10 ^ 10 then s ! i * (1 / c ! i) else s ! j)"
  by (simp add: rescale_lane_def)

lemma rescale_prefix:
  "n \<le> length r \<Longrightarrow>
   length (fold (rescale_lane c) [0..<n] r) = length r \<and>
   (\<forall>i<length r. fold (rescale_lane c) [0..<n] r ! i =
      (if i < n \<and> \<bar>c ! i\<bar> > 1 / 10 ^ 10 then r ! i / c ! i else r ! i))"
proof (induction n)
  case 0
  then show ?case by simp
next
  case (Suc n)
  define w where "w = fold (rescale_lane c) [0..<n] r"
  from Suc have len: "length w = length r"
    and nth: "\<And>i. i < length r \<Longrightarrow>
      w ! i = (if i < n \<and> \<bar>c ! i\<bar> > 1 / 10 ^ 10 then r ! i / c ! i else r ! i)"
    by (auto simp: w_def)
  from Suc.prems have n: "n < length r" by simp
  have step: "fold (rescale_lane c) [0..<Suc n] r = rescale_lane c n w"
    by (simp add: w_def)
  show ?case
    unfolding step using len n nth
    by (simp add: rescale_lane_length rescale_lane_nth less_Suc_eq)
qed

lemma compute_JxW_scale_lanes:
  assumes "length JxW_reference = n"
  shows "length (compute_JxW_scale n JxW_current JxW_reference) = n \<and>
   (\<forall>i<n. compute_JxW_scale n JxW_current JxW_reference ! i =
      (if \<bar>JxW_current ! i\<bar> > 1 / 10 ^ 10 then JxW_reference ! i / JxW_current ! i
       else JxW_reference ! i))"
  using rescale_prefix [of n JxW_reference JxW_current] assms
  by (simp add: compute_JxW_scale_def)

text \<open>
  Claim C1, as the code has it. At every quadrature point \<open>q\<close> the two submitted
  contributions, the material-tangent part \<open>jc_part\<close> and the geometric-stress part
  \<open>geo\<close>, are multiplied by one and the same batch \<open>JxW_scale\<close>. In every SIMD lane
  \<open>JxW_scale\<close> is the reference-configuration weight divided by the
  current-configuration weight where the magnitude of the current weight exceeds
  \<open>10\<^sup>-\<^sup>1\<^sup>0\<close>, and the reference-configuration weight itself, unchanged, where it
  does not: the guard skips the multiplication by \<open>1/JxW_current\<close> and nothing else.
\<close>
theorem JxW_scale_is_weight_ratio_or_reference_weight:
  assumes "length (JxW env phi_reference q) = n_array_elements env"
    and "material op = Some mat"
  shows "\<exists>JxW_scale.
     length JxW_scale = n_array_elements env \<and>
     (\<forall>i<n_array_elements env.
        JxW_scale ! i =
          (if \<bar>JxW env phi_current q ! i\<bar> > 1 / 10 ^ 10
           then JxW env phi_reference q ! i / JxW env phi_current q ! i
           else JxW env phi_reference q ! i)) \<and>
     quadrature_point env op phi_reference q (phi_current, phi_current_s) =
       (let F = Kinematics_F env (get_gradient env phi_reference q);
            det_F = determinant env F;
            b_bar = Kinematics_b env (Kinematics_F_iso env F);
            jc_part = act_Jc mat det_F b_bar (get_symmetric_gradient env phi_current q);
            geo = egeo_grad env (get_gradient env phi_current q)
                    (symmetric_to_tensor env (get_tau mat det_F b_bar))
        in Inr (submit_gradient env (tensor_times geo JxW_scale) q phi_current,
                submit_symmetric_gradient env (tensor_times jc_part JxW_scale) q
                  phi_current_s))"
proof -
  define S where "S = compute_JxW_scale (n_array_elements env) (JxW env phi_current q)
                        (JxW env phi_reference q)"
  from compute_JxW_scale_lanes [OF assms(1), of "JxW env phi_current q"]
  have lanes: "length S = n_array_elements env \<and>
     (\<forall>i<n_array_elements env.
        S ! i = (if \<bar>JxW env phi_current q ! i\<bar> > 1 / 10 ^ 10
           then JxW env phi_reference q ! i / JxW env phi_current q ! i
           else JxW env phi_reference q ! i))"
    by (simp add: S_def)
  have body: "quadrature_point env op phi_reference q (phi_current, phi_current_s) =
       (let F = Kinematics_F env (get_gradient env phi_reference q);
            det_F = determinant env F;
            b_bar = Kinematics_b env (Kinematics_F_iso env F);
            jc_part = act_Jc mat det_F b_bar (get_symmetric_gradient env phi_current q);
            geo = egeo_grad env (get_gradient env phi_current q)
                    (symmetric_to_tensor env (get_tau mat det_F b_bar))
        in Inr (submit_gradient env (tensor_times geo S) q phi_current,
                submit_symmetric_gradient env (tensor_times jc_part S) q phi_current_s))"
    using assms(2) by (simp add: quadrature_point_def Let_def S_def)
  from lanes body show ?thesis by blast
qed

text \<open>
  Claim C1 as it is worded gives the factor the value one at or below the threshold.
  With a current weight of \<open>10\<^sup>-\<^sup>1\<^sup>1\<close> and a reference weight of \<open>3\<sqdot>10\<^sup>-\<^sup>1\<^sup>1\<close> the
  lane loop returns the reference weight, and the kernel submits the two unit
  contributions multiplied by it.
\<close>
theorem JxW_scale_below_threshold_counterexample:
  "\<bar>1 / 10 ^ 11 :: real\<bar> \<le> 1 / 10 ^ 10 \<and>
   compute_JxW_scale 1 [1 / 10 ^ 11] [3 / 10 ^ 11] = [3 / 10 ^ 11] \<and>
   compute_JxW_scale 1 [1 / 10 ^ 11] [3 / 10 ^ 11] ! 0 \<noteq> 1 \<and>
   quadrature_point example_environment example_operator
       (example_reference \<lparr> weight := 3 / 10 ^ 11 \<rparr>, [[1 / 10], [1 / 5]]) 0
       ((example_current \<lparr> weight := 1 / 10 ^ 11 \<rparr>, [[0], [1]]),
        (example_current \<lparr> weight := 1 / 10 ^ 11 \<rparr>, [[0], [1]])) =
     Inr ((example_current \<lparr> weight := 1 / 10 ^ 11 \<rparr>, [[0], [3 / 10 ^ 11]]),
          (example_current \<lparr> weight := 1 / 10 ^ 11 \<rparr>, [[0], [3 / 10 ^ 11]]))"
  by (simp add: example_defs kernel_defs upt_0_1 Let_def)

text \<open>The theorem in the concrete setting, once with the weights \<open>1\<close> and \<open>1/2\<close>
  (factor \<open>2\<close>) and once with the two small weights above (factor \<open>3\<sqdot>10\<^sup>-\<^sup>1\<^sup>1\<close>).\<close>
theorem JxW_scale_is_weight_ratio_or_reference_weight_witness:
  "length (JxW example_environment (example_reference, [[1 / 10], [1 / 5]]) 0) =
     n_array_elements example_environment \<and>
   material example_operator = Some example_material \<and>
   quadrature_point example_environment example_operator
       (example_reference, [[1 / 10], [1 / 5]]) 0
       ((example_current, [[0], [3]]), (example_current, [[0], [3]])) =
     Inr ((example_current, [[0], [6]]), (example_current, [[0], [6]])) \<and>
   quadrature_point example_environment example_operator
       (example_reference \<lparr> weight := 3 / 10 ^ 11 \<rparr>, [[1 / 10], [1 / 5]]) 0
       ((example_current \<lparr> weight := 1 / 10 ^ 11 \<rparr>, [[0], [1]]),
        (example_current \<lparr> weight := 1 / 10 ^ 11 \<rparr>, [[0], [1]])) =
     Inr ((example_current \<lparr> weight := 1 / 10 ^ 11 \<rparr>, [[0], [3 / 10 ^ 11]]),
          (example_current \<lparr> weight := 1 / 10 ^ 11 \<rparr>, [[0], [3 / 10 ^ 11]]))"
proof -
  have lanes: "\<And>w. length (JxW example_environment (w, [[1 / 10], [1 / 5]]) 0) =
     n_array_elements example_environment"
    by (simp add: example_environment_def)
  have mat: "material example_operator = Some example_material"
    by (simp add: example_operator_def initialize_def set_material_def)
  from
    JxW_scale_is_weight_ratio_or_reference_weight
      [OF lanes [of example_reference] mat,
       where phi_current = "(example_current, [[0], [3]])"
         and phi_current_s = "(example_current, [[0], [3]])"]
    JxW_scale_is_weight_ratio_or_reference_weight
      [OF lanes [of "example_reference \<lparr> weight := 3 / 10 ^ 11 \<rparr>"] mat,
       where phi_current = "(example_current \<lparr> weight := 1 / 10 ^ 11 \<rparr>, [[0], [1]])"
         and phi_current_s = "(example_current \<lparr> weight := 1 / 10 ^ 11 \<rparr>, [[0], [1]])"]
    lanes mat
  show ?thesis
    by (simp add: example_defs kernel_defs upt_0_1 Let_def)
qed

subsection \<open>The constraint step of the operator action\<close>

lemma add_constrained_entry_Inr:
  "add_constrained_entry src c d = Inr d1 \<Longrightarrow>
     c < length d \<and> c < length src \<and> d1 = d[c := d ! c + src ! c]"
  by (simp add: add_constrained_entry_def split: if_splits)

lemma add_constrained_entry_Inl:
  "add_constrained_entry src c d = Inl e \<Longrightarrow> e = ExcIndexRange"
  by (simp add: add_constrained_entry_def split: if_splits)

lemma add_constrained_entries:
  "for_each (add_constrained_entry src) cs d = Inr d' \<Longrightarrow>
     length d' = length d \<and>
     (\<forall>k\<in>set cs. k < length d \<and> k < length src) \<and>
     (\<forall>k<length d. d' ! k = d ! k + of_nat (count_list cs k) * src ! k)"
proof (induction cs arbitrary: d)
  case Nil
  then show ?case by simp
next
  case (Cons c cs)
  from Cons.prems obtain d1 where first: "add_constrained_entry src c d = Inr d1"
    and rest: "for_each (add_constrained_entry src) cs d1 = Inr d'"
    by (auto split: sum.splits)
  from add_constrained_entry_Inr [OF first]
  have c: "c < length d" "c < length src" and d1: "d1 = d[c := d ! c + src ! c]"
    by simp_all
  from Cons.IH [OF rest] c show ?case
    unfolding d1 by (auto simp: nth_list_update algebra_simps)
qed

lemma count_list_distinct: "distinct cs \<Longrightarrow> k \<in> set cs \<Longrightarrow> count_list cs k = 1"
  by (induction cs) (auto simp: count_list_0_iff)

lemma vmult_add_Inr:
  "vmult_add env op dst src = Inr dst' \<Longrightarrow>
   \<exists>dc d1. data_current op = Some dc \<and>
     local_apply_cell env op dst src (0, n_macro_cells env dc) = Inr d1 \<and>
     for_each (add_constrained_entry src) (get_constrained_dofs env dc) d1 = Inr dst'"
  by (auto simp: vmult_add_def split: option.splits sum.splits if_splits)

lemma example_vmult:
  "vmult example_environment example_operator [9, 9, 9] [2, 3, 5] = Inr [2, 12, 0]"
  by (simp add: vmult_def vmult_add_def local_apply_cell_def apply_on_cell_def
      add_constrained_entry_def example_defs kernel_defs upt_0_1 Let_def)

lemma example_vmult_add:
  "vmult_add example_environment example_operator [9, 9, 9] [2, 3, 5] = Inr [11, 21, 9]"
  by (simp add: vmult_add_def local_apply_cell_def apply_on_cell_def
      add_constrained_entry_def example_defs kernel_defs upt_0_1 Let_def)

text \<open>The cell loop keeps the size of \<open>dst\<close> and the entry \<open>k\<close> when the scatter
  does.\<close>
lemma apply_on_cell_keeps_entry:
  assumes "apply_on_cell env op src cell (pc, ps, pr, d) = Inr (pc', ps', pr', d')"
    and "\<And>fe v. length (distribute_local_to_global env fe v) = length v \<and>
                 distribute_local_to_global env fe v ! k = v ! k"
  shows "length d' = length d \<and> d' ! k = d ! k"
  using assms(1)
  by (auto simp: apply_on_cell_def Let_def assms(2) split: sum.splits)

lemma local_apply_cell_keeps_entry:
  assumes "local_apply_cell env op d src cell_range = Inr d1"
    and "\<And>fe v. length (distribute_local_to_global env fe v) = length v \<and>
                 distribute_local_to_global env fe v ! k = v ! k"
  shows "length d1 = length d \<and> d1 ! k = d ! k"
proof -
  from assms(1) obtain dc dr s' where
    loop: "for_each (apply_on_cell env op src) [fst cell_range..<snd cell_range]
             (FEEvaluation env dc, FEEvaluation env dc, FEEvaluation env dr, d) = Inr s'"
    and d1: "d1 = snd (snd (snd s'))"
    by (auto simp: local_apply_cell_def Let_def split: option.splits if_splits sum.splits)
  have step: "length (snd (snd (snd t'))) = length d \<and> snd (snd (snd t')) ! k = d ! k"
    if "apply_on_cell env op src i t = Inr t'"
      and "length (snd (snd (snd t))) = length d \<and> snd (snd (snd t)) ! k = d ! k"
    for i t t'
    using apply_on_cell_keeps_entry
            [of env op src i "fst t" "fst (snd t)" "fst (snd (snd t))" "snd (snd (snd t))"
               "fst t'" "fst (snd t')" "fst (snd (snd t'))" "snd (snd (snd t'))" k]
          that assms(2)
    by simp
  from for_each_invariant
         [OF loop, where P = "\<lambda>t. length (snd (snd (snd t))) = length d \<and>
                                snd (snd (snd t)) ! k = d ! k", OF step]
  show ?thesis by (simp add: d1)
qed

text \<open>
  Claim C2. After \<open>vmult\<close> has completed, the entry of \<open>dst\<close> at every constrained
  degree-of-freedom index \<open>k\<close> is exactly \<open>src(k)\<close>, for every \<open>src\<close>. \<open>vmult\<close> sets
  \<open>dst\<close> to zero, the cell loop does not reach a constrained entry, and the loop
  after it puts \<open>src(k)\<close> there (line 243 adds it to the zero). Two properties of
  the evaluation context are used, both part of what deal.II's \<open>MatrixFree\<close>
  provides: \<open>distribute_local_to_global\<close> keeps the size of the vector and leaves
  the entry at a constrained index as it is, and the list of constrained indices
  names every index once.
\<close>
theorem vmult_constrained_entry_is_src:
  assumes "vmult env op dst src = Inr dst'"
    and "data_current op = Some dc"
    and "k \<in> set (get_constrained_dofs env dc)"
    and "distinct (get_constrained_dofs env dc)"
    and "\<And>fe v. length (distribute_local_to_global env fe v) = length v \<and>
                 distribute_local_to_global env fe v ! k = v ! k"
  shows "k < length dst' \<and> dst' ! k = src ! k"
proof -
  from assms(1) have "vmult_add env op (replicate (length dst) 0) src = Inr dst'"
    by (simp add: vmult_def)
  from vmult_add_Inr [OF this] assms(2) obtain d1 where
    cell_loop: "local_apply_cell env op (replicate (length dst) 0) src
                  (0, n_macro_cells env dc) = Inr d1" and
    loop: "for_each (add_constrained_entry src) (get_constrained_dofs env dc) d1 = Inr dst'"
    by auto
  from local_apply_cell_keeps_entry [OF cell_loop assms(5)]
  have len: "length d1 = length dst" and same: "d1 ! k = replicate (length dst) 0 ! k"
    by simp_all
  from add_constrained_entries [OF loop] assms(3)
  have k: "k < length d1" and len': "length dst' = length d1"
    and sum: "dst' ! k = d1 ! k + of_nat (count_list (get_constrained_dofs env dc) k) * src ! k"
    by auto
  from k len same have zero: "d1 ! k = 0" by simp
  from sum zero count_list_distinct [OF assms(4) assms(3)] k len'
  show ?thesis by simp
qed

text \<open>In the concrete setting index 0 is constrained, the scatter writes index 1
  only, and \<open>vmult\<close> on \<open>src = [2, 3, 5]\<close> leaves \<open>2\<close> at index 0.\<close>
theorem vmult_constrained_entry_is_src_witness:
  "vmult example_environment example_operator [9, 9, 9] [2, 3, 5] = Inr [2, 12, 0] \<and>
   data_current example_operator = Some example_current \<and>
   0 \<in> set (get_constrained_dofs example_environment example_current) \<and>
   distinct (get_constrained_dofs example_environment example_current) \<and>
   distribute_local_to_global example_environment (example_current, [[0], [6]]) [0, 0, 0] =
     [0, 6, 0] \<and>
   (0 :: nat) < length [2, 12, 0 :: real] \<and>
   [2, 12, 0] ! 0 = [2, 3, 5 :: real] ! 0"
proof -
  note run = example_vmult
  have dc: "data_current example_operator = Some example_current"
    by (simp add: example_operator_def initialize_def)
  have k: "0 \<in> set (get_constrained_dofs example_environment example_current)"
    and dist: "distinct (get_constrained_dofs example_environment example_current)"
    by (simp_all add: example_environment_def)
  have scatter: "length (distribute_local_to_global example_environment fe v) = length v \<and>
      distribute_local_to_global example_environment fe v ! 0 = v ! 0" for fe v
    by (simp add: example_environment_def)
  from vmult_constrained_entry_is_src [OF run dc k dist scatter] run dc k dist
  show ?thesis
    by (simp add: example_environment_def)
qed

subsection \<open>The consistency checks of the operator action\<close>

lemma quadrature_point_Inl:
  "quadrature_point env op phi_reference q s = Inl e \<Longrightarrow> e = NullPointer"
  by (cases s) (auto simp: quadrature_point_def Let_def split: option.splits)

lemma do_operation_on_cell_Inl:
  "do_operation_on_cell env op pc ps pr cell = Inl e \<Longrightarrow> e = NullPointer"
  by (auto simp: do_operation_on_cell_def Let_def split: sum.splits
      dest!: for_each_error_from_body quadrature_point_Inl)

lemma read_displacement_Inl:
  "read_displacement env op = Inl e \<Longrightarrow> e = NullPointer"
  by (auto simp: read_displacement_def split: option.splits)

lemma apply_on_cell_Inl:
  "apply_on_cell env op src cell s = Inl e \<Longrightarrow> e = NullPointer"
  by (cases s) (auto simp: apply_on_cell_def Let_def split: sum.splits
      dest: read_displacement_Inl do_operation_on_cell_Inl)

lemma apply_cell_loop_no_internal_error:
  "for_each (apply_on_cell env op src) cell_list s \<noteq> Inl ExcInternalError"
proof
  assume "for_each (apply_on_cell env op src) cell_list s = Inl ExcInternalError"
  from for_each_error_from_body [OF this] obtain i s'
    where "apply_on_cell env op src i s' = Inl ExcInternalError" by blast
  from apply_on_cell_Inl [OF this] show False by simp
qed

lemma constraint_loop_no_internal_error:
  "for_each (add_constrained_entry src) cs d \<noteq> Inl ExcInternalError"
proof
  assume "for_each (add_constrained_entry src) cs d = Inl ExcInternalError"
  from for_each_error_from_body [OF this] obtain c d'
    where "add_constrained_entry src c d' = Inl ExcInternalError" by blast
  from add_constrained_entry_Inl [OF this] show False by simp
qed

lemma local_apply_cell_internal_error:
  assumes "data_current op = Some dc" and "data_reference op = Some dr"
  shows "(local_apply_cell env op dst src cell_range = Inl ExcInternalError) =
     (n_q_points env (FEEvaluation env dc) \<noteq> n_q_points env (FEEvaluation env dr))"
proof (cases "n_q_points env (FEEvaluation env dc) = n_q_points env (FEEvaluation env dr)")
  case False
  with assms show ?thesis by (simp add: local_apply_cell_def)
next
  case True
  show ?thesis
  proof (cases "for_each (apply_on_cell env op src) [fst cell_range..<snd cell_range]
                  (FEEvaluation env dc, FEEvaluation env dc, FEEvaluation env dr, dst)")
    case (Inl e)
    with apply_cell_loop_no_internal_error [of env op src "[fst cell_range..<snd cell_range]"
        "(FEEvaluation env dc, FEEvaluation env dc, FEEvaluation env dr, dst)"]
    have "e \<noteq> ExcInternalError" by auto
    with assms True Inl show ?thesis by (simp add: local_apply_cell_def)
  next
    case (Inr s)
    with assms True show ?thesis
      by (cases s) (simp add: local_apply_cell_def)
  qed
qed

lemma vmult_add_internal_error:
  assumes "data_current op = Some dc" and "data_reference op = Some dr"
  shows "(vmult_add env op dst src = Inl ExcInternalError) =
     (n_macro_cells env dc \<noteq> n_macro_cells env dr \<or>
      n_q_points env (FEEvaluation env dc) \<noteq> n_q_points env (FEEvaluation env dr))"
proof (cases "n_macro_cells env dc = n_macro_cells env dr")
  case False
  with assms show ?thesis by (simp add: vmult_add_def)
next
  case True
  note cells = local_apply_cell_internal_error
                 [OF assms, of env dst src "(0, n_macro_cells env dc)"]
  show ?thesis
  proof (cases "local_apply_cell env op dst src (0, n_macro_cells env dc)")
    case (Inl e)
    with assms True cells show ?thesis by (auto simp: vmult_add_def)
  next
    case (Inr d1)
    with assms True cells constraint_loop_no_internal_error [of src "get_constrained_dofs env dc" d1]
    show ?thesis by (simp add: vmult_add_def)
  qed
qed

text \<open>
  Claim C8. With both contexts bound, each of \<open>vmult_add\<close>, \<open>vmult\<close>, \<open>Tvmult\<close> and
  \<open>Tvmult_add\<close> ends with \<open>ExcInternalError\<close> exactly when the two contexts differ
  in their number of cell batches or their evaluators differ in their number of
  quadrature points: with equal counts no assertion fires. The comparison of the
  quadrature-point counts stands before the cell loop of \<open>local_apply_cell\<close>, so its
  outcome is the same for every cell range, the empty one included.
\<close>
theorem count_mismatch_is_the_internal_error:
  assumes "data_current op = Some dc" and "data_reference op = Some dr"
  shows "(vmult_add env op dst src = Inl ExcInternalError) =
           (n_macro_cells env dc \<noteq> n_macro_cells env dr \<or>
            n_q_points env (FEEvaluation env dc) \<noteq> n_q_points env (FEEvaluation env dr)) \<and>
         (vmult env op dst src = Inl ExcInternalError) =
           (n_macro_cells env dc \<noteq> n_macro_cells env dr \<or>
            n_q_points env (FEEvaluation env dc) \<noteq> n_q_points env (FEEvaluation env dr)) \<and>
         (Tvmult env op dst src = Inl ExcInternalError) =
           (n_macro_cells env dc \<noteq> n_macro_cells env dr \<or>
            n_q_points env (FEEvaluation env dc) \<noteq> n_q_points env (FEEvaluation env dr)) \<and>
         (Tvmult_add env op dst src = Inl ExcInternalError) =
           (n_macro_cells env dc \<noteq> n_macro_cells env dr \<or>
            n_q_points env (FEEvaluation env dc) \<noteq> n_q_points env (FEEvaluation env dr)) \<and>
         (local_apply_cell env op dst src cell_range = Inl ExcInternalError) =
           (n_q_points env (FEEvaluation env dc) \<noteq> n_q_points env (FEEvaluation env dr))"
proof -
  note add = vmult_add_internal_error [OF assms, of env]
  note cells = local_apply_cell_internal_error [OF assms, of env dst src cell_range]
  show ?thesis
    unfolding vmult_def Tvmult_def Tvmult_add_def
    using add [of dst src] add [of "replicate (length dst) 0" src] cells
    by blast
qed

text \<open>In the concrete setting the counts agree and \<open>vmult_add\<close> returns; with a
  reference context of two cell batches it fails, and with a reference context of two
  quadrature points \<open>local_apply_cell\<close> fails on the empty cell range.\<close>
theorem count_mismatch_is_the_internal_error_witness:
  "data_current example_operator = Some example_current \<and>
   data_reference example_operator = Some example_reference \<and>
   vmult_add example_environment example_operator [9, 9, 9] [2, 3, 5] = Inr [11, 21, 9] \<and>
   vmult_add example_environment
     (example_operator \<lparr> data_reference := Some (example_reference \<lparr> cells := 2 \<rparr>) \<rparr>)
     [9, 9, 9] [2, 3, 5] = Inl ExcInternalError \<and>
   local_apply_cell example_environment
     (example_operator \<lparr> data_reference := Some (example_reference \<lparr> quadrature_points := 2 \<rparr>) \<rparr>)
     [9, 9, 9] [2, 3, 5] (0, 0) = Inl ExcInternalError"
proof -
  have dc: "data_current example_operator = Some example_current"
    and dr: "data_reference example_operator = Some example_reference"
    by (simp_all add: example_operator_def initialize_def)
  have dc2: "\<And>r. data_current (example_operator \<lparr> data_reference := Some r \<rparr>) =
      Some example_current"
    and dr2: "\<And>r. data_reference (example_operator \<lparr> data_reference := Some r \<rparr>) = Some r"
    by (simp_all add: example_operator_def initialize_def)
  from
    count_mismatch_is_the_internal_error
      [OF dc dr, where env = example_environment and dst = "[9, 9, 9]" and src = "[2, 3, 5]"]
    count_mismatch_is_the_internal_error
      [OF dc2 [of "example_reference \<lparr> cells := 2 \<rparr>"]
          dr2 [of "example_reference \<lparr> cells := 2 \<rparr>"],
       where env = example_environment and dst = "[9, 9, 9]" and src = "[2, 3, 5]"]
    count_mismatch_is_the_internal_error
      [OF dc2 [of "example_reference \<lparr> quadrature_points := 2 \<rparr>"]
          dr2 [of "example_reference \<lparr> quadrature_points := 2 \<rparr>"],
       where env = example_environment and dst = "[9, 9, 9]" and src = "[2, 3, 5]"
         and cell_range = "(0, 0)"]
    example_vmult_add dc dr
  show ?thesis
    by (simp add: example_environment_def example_current_def example_reference_def)
qed

subsection \<open>The Jacobi preconditioner\<close>

text \<open>
  Claim C3. \<open>precondition_Jacobi\<close> fails with \<open>ExcNotInitialized\<close> when the inverse
  diagonal has not been computed: in a newly constructed operator, after \<open>clear\<close>,
  and whenever the inverse-diagonal object does not exist. With a stored inverse
  diagonal, as a completed \<open>compute_diagonal\<close> leaves one, the result is \<open>omega\<close>
  times the element-wise product of \<open>src\<close> with it, for every \<open>omega\<close> and every
  \<open>src\<close>. Vectors have the size of the system, which has at least one degree of
  freedom: \<open>src\<close> has the size of the diagonal, and the diagonal is not empty.
\<close>
theorem precondition_Jacobi_contract:
  "precondition_Jacobi NeoHookOperator_ctor dst src omega = Inl ExcNotInitialized \<and>
   precondition_Jacobi (clear op) dst src omega = Inl ExcNotInitialized \<and>
   (inverse_diagonal_entries op = None \<longrightarrow>
      precondition_Jacobi op dst src omega = Inl ExcNotInitialized) \<and>
   (inverse_diagonal_entries op = Some d \<and> 0 < length d \<and> length src = length d \<longrightarrow>
      (\<exists>dst'. precondition_Jacobi op dst src omega = Inr dst' \<and>
              length dst' = length src \<and>
              (\<forall>i<length src. dst' ! i = omega * (src ! i * d ! i)))) \<and>
   (compute_diagonal env op0 = Inr op \<longrightarrow>
      (\<exists>v. inverse_diagonal_entries op = Some v \<and>
           (0 < length v \<and> length src = length v \<longrightarrow>
              (\<exists>dst'. precondition_Jacobi op dst src omega = Inr dst' \<and>
                      length dst' = length src \<and>
                      (\<forall>i<length src. dst' ! i = omega * (src ! i * v ! i))))))"
proof -
  have product: "\<exists>dst'. precondition_Jacobi op dst src omega = Inr dst' \<and>
              length dst' = length src \<and>
              (\<forall>i<length src. dst' ! i = omega * (src ! i * v ! i))"
    if "inverse_diagonal_entries op = Some v" "0 < length v" "length src = length v" for v
    using that by (auto simp add: precondition_Jacobi_def DiagonalMatrix_vmult_def)
  have computed: "\<exists>v. inverse_diagonal_entries op = Some v \<and>
           (0 < length v \<and> length src = length v \<longrightarrow>
              (\<exists>dst'. precondition_Jacobi op dst src omega = Inr dst' \<and>
                      length dst' = length src \<and>
                      (\<forall>i<length src. dst' ! i = omega * (src ! i * v ! i))))"
    if "compute_diagonal env op0 = Inr op"
  proof -
    from compute_diagonal_result [OF that] obtain v
      where v: "inverse_diagonal_entries op = Some v" by blast
    with product [OF v] show ?thesis by blast
  qed
  have "precondition_Jacobi NeoHookOperator_ctor dst src omega = Inl ExcNotInitialized"
    by (simp add: precondition_Jacobi_def NeoHookOperator_ctor_def)
  moreover have "precondition_Jacobi (clear op) dst src omega = Inl ExcNotInitialized"
    by (simp add: precondition_Jacobi_def clear_def)
  moreover have "inverse_diagonal_entries op = None \<longrightarrow>
      precondition_Jacobi op dst src omega = Inl ExcNotInitialized"
    by (simp add: precondition_Jacobi_def)
  ultimately show ?thesis
    using product [of d] computed by blast
qed

text \<open>In the concrete setting, with \<open>omega = 1/2\<close> and the inverse diagonal
  \<open>[1, 1/4, 1]\<close> that \<open>compute_diagonal\<close> has stored.\<close>
theorem precondition_Jacobi_contract_witness:
  "precondition_Jacobi (NeoHookOperator_ctor :: example_context NeoHookOperator)
     [0, 0, 0] [2, 3, 5] (1 / 2) = Inl ExcNotInitialized \<and>
   compute_diagonal example_environment example_operator = Inr example_operator_with_diagonal \<and>
   inverse_diagonal_entries example_operator_with_diagonal = Some [1, 1 / 4, 1] \<and>
   precondition_Jacobi example_operator_with_diagonal [0, 0, 0] [2, 3, 5] (1 / 2) =
     Inr [1, 3 / 8, 5 / 2]"
proof -
  note run = example_compute_diagonal
  have inverse: "inverse_diagonal_entries example_operator_with_diagonal = Some [1, 1 / 4, 1]"
    by (simp add: example_operator_with_diagonal_def)
  note contract =
    precondition_Jacobi_contract
      [where op = example_operator_with_diagonal and d = "[1, 1 / 4, 1]"
         and dst = "[0, 0, 0]" and src = "[2, 3, 5]" and omega = "1 / 2"
         and env = example_environment and ?op0.0 = example_operator]
  from contract have "precondition_Jacobi (NeoHookOperator_ctor :: example_context NeoHookOperator)
     [0, 0, 0] [2, 3, 5] (1 / 2) = Inl ExcNotInitialized"
    by (rule conjunct1)
  moreover have "precondition_Jacobi example_operator_with_diagonal [0, 0, 0] [2, 3, 5] (1 / 2) =
     Inr [1, 3 / 8, 5 / 2]"
    by (simp add: example_operator_with_diagonal_def precondition_Jacobi_def
        DiagonalMatrix_vmult_def)
  ultimately show ?thesis using run inverse by simp
qed

end
